theory Spec2Isabelle
  imports Complex_Main
begin

section \<open>The speedup report script \<^verbatim>\<open>plot_speedup.py\<close>\<close>

text \<open>
  The script is one linear sequence of statements: it reads two CSV files, looks the seven
  summary metrics up, prints a first block of lines, draws and saves a figure, and prints a
  second block of lines. Every statement that can raise is a branch of the model; an
  exception ends the run and leaves what was printed before it.

  Numbers: a cell of a numeric column is a float. A float is modelled as a real number or
  NaN, so arithmetic is exact and the rounding of IEEE doubles (and the values
  \<open>inf\<close>, \<open>-inf\<close>) is left out. Where rounding decides between NaN and a number, in
  the correlation of a constant column, the model gives a value only when the doubles are
  exact too. Columns are typed as section 6 of the specification
  gives them: \<open>run\<close>, \<open>speedup\<close>, \<open>relative_error\<close> and \<open>value\<close> hold floats, \<open>metric\<close>
  holds strings. The drawing primitives of the plotting library are not modelled; the
  figure keeps the data handed to each panel and the texts written on it.
\<close>

subsection \<open>Floats\<close>

datatype pyfloat = Num real | NaN

text \<open>\<open>x * c\<close> for a float \<open>x\<close> and a literal \<open>c\<close>.\<close>

fun fmul :: "pyfloat \<Rightarrow> real \<Rightarrow> pyfloat" where
  "fmul (Num a) c = Num (a * c)"
| "fmul NaN c = NaN"

text \<open>\<open>x > t\<close>: a comparison with NaN is false.\<close>

fun fgt :: "pyfloat \<Rightarrow> real \<Rightarrow> bool" where
  "fgt (Num a) t = (t < a)"
| "fgt NaN t = False"

text \<open>
  Python's \<open>int(x)\<close> on a float truncates toward zero, and raises \<open>ValueError\<close> on NaN.
\<close>

datatype error =
    FileNotFoundError
  | PermissionError
  | ParserError
  | KeyError string
  | ValueError

definition trunc_toward_zero :: "real \<Rightarrow> int" where
  "trunc_toward_zero r = (if 0 \<le> r then \<lfloor>r\<rfloor> else \<lceil>r\<rceil>)"

fun py_int :: "pyfloat \<Rightarrow> error + int" where
  "py_int (Num r) = Inr (trunc_toward_zero r)"
| "py_int NaN = Inl ValueError"

subsection \<open>Column statistics (pandas \<open>Series\<close> methods, with their defaults)\<close>

text \<open>The reductions skip NaN cells (\<open>skipna=True\<close>).\<close>

fun dropna :: "pyfloat list \<Rightarrow> real list" where
  "dropna [] = []"
| "dropna (Num r # xs) = r # dropna xs"
| "dropna (NaN # xs) = dropna xs"

definition mean_of :: "real list \<Rightarrow> real" where
  "mean_of xs = sum_list xs / real (length xs)"

text \<open>Sum of the squared deviations from the mean.\<close>

definition ssqdm :: "real list \<Rightarrow> real" where
  "ssqdm xs = sum_list (map (\<lambda>x. (x - mean_of xs)\<^sup>2) xs)"

text \<open>
  \<open>Series.std()\<close>: the sample standard deviation (\<open>ddof=1\<close>). With at most one value the
  divisor \<open>n - ddof\<close> is not positive and the result is NaN; nothing is raised.
\<close>

definition std :: "pyfloat list \<Rightarrow> pyfloat" where
  "std col =
     (let xs = dropna col; n = length xs
      in if n \<le> 1 then NaN else Num (sqrt (ssqdm xs / real (n - 1))))"

text \<open>\<open>Series.median()\<close>: NaN on an empty column.\<close>

definition median :: "pyfloat list \<Rightarrow> pyfloat" where
  "median col =
     (let xs = sort (dropna col); n = length xs
      in if n = 0 then NaN
         else if odd n then Num (xs ! (n div 2))
         else Num ((xs ! (n div 2 - 1) + xs ! (n div 2)) / 2))"

text \<open>
  \<open>Series.quantile(q)\<close> with the default linear interpolation: the value at the
  fractional position \<open>(n - 1) * q\<close> of the sorted column.
\<close>

definition quantile :: "pyfloat list \<Rightarrow> real \<Rightarrow> pyfloat" where
  "quantile col q =
     (let xs = sort (dropna col); n = length xs
      in if n = 0 then NaN
         else
           let h = real (n - 1) * q;
               lo = nat \<lfloor>h\<rfloor>;
               hi = min (lo + 1) (n - 1)
           in Num (xs ! lo + (xs ! hi - xs ! lo) * (h - real lo)))"

text \<open>\<open>(col > t).sum()\<close> and \<open>(col > t).mean()\<close>: the mean of an empty column is NaN.\<close>

definition count_gt :: "pyfloat list \<Rightarrow> real \<Rightarrow> int" where
  "count_gt col t = int (length (filter (\<lambda>v. fgt v t) col))"

definition mean_gt :: "pyfloat list \<Rightarrow> real \<Rightarrow> pyfloat" where
  "mean_gt col t =
     (if col = [] then NaN else Num (real_of_int (count_gt col t) / real (length col)))"

text \<open>
  \<open>a.corr(b)\<close>, Pearson: rows with a NaN in either column are dropped; with at most one
  row left the result is NaN; otherwise the covariance matrix (\<open>ddof=1\<close>) is divided by
  the two standard deviations and the result is clipped to \<open>[-1, 1]\<close>.

  A constant column is where the rounding of doubles decides the result. The deviations
  of such a column from its computed mean are all zero exactly when that mean is computed
  without rounding. This is certain when the constant is an integer whose multiples up to
  the row count do not exceed \<open>2^53\<close>: every partial sum is then a double, in any order of
  summation, and so is the quotient. Zero is then divided by zero and the result is NaN.
  For any other constant column the computed mean may differ from the constant in its last
  place; the deviations are then not zero and the result is what the rounding makes of it
  (\<open>0.0\<close> for \<open>[1, 2, 3]\<close> against \<open>[0.1, 0.1, 0.1]\<close>). A model over the reals cannot
  determine that value: \<open>rounded_corr\<close> stands for it and nothing is known about it.
\<close>

fun dropna_pairs :: "pyfloat list \<Rightarrow> pyfloat list \<Rightarrow> (real \<times> real) list" where
  "dropna_pairs (Num a # xs) (Num b # ys) = (a, b) # dropna_pairs xs ys"
| "dropna_pairs (_ # xs) (_ # ys) = dropna_pairs xs ys"
| "dropna_pairs _ _ = []"

definition covdm :: "real list \<Rightarrow> real list \<Rightarrow> real" where
  "covdm xs ys = sum_list (map (\<lambda>(x, y). (x - mean_of xs) * (y - mean_of ys)) (zip xs ys))"

definition clip :: "real \<Rightarrow> real" where
  "clip r = max (- 1) (min 1 r)"

definition exact_constant :: "real list \<Rightarrow> bool" where
  "exact_constant xs =
     (ssqdm xs = 0 \<and>
      list_all (\<lambda>x. real_of_int \<lfloor>x\<rfloor> = x \<and> \<bar>x\<bar> * real (length xs) \<le> 2 ^ 53) xs)"

definition rounded_corr :: "real list \<Rightarrow> real list \<Rightarrow> pyfloat" where
  "rounded_corr = undefined"

definition corr :: "pyfloat list \<Rightarrow> pyfloat list \<Rightarrow> pyfloat" where
  "corr a b =
     (let ps = dropna_pairs a b; xs = map fst ps; ys = map snd ps; n = length ps
      in if n \<le> 1 then NaN
         else if exact_constant xs \<or> exact_constant ys then NaN
         else
           let cxx = ssqdm xs / real (n - 1);
               cyy = ssqdm ys / real (n - 1);
               cxy = covdm xs ys / real (n - 1)
           in if cxx = 0 \<or> cyy = 0 then rounded_corr xs ys
              else Num (clip (cxy / sqrt cxx / sqrt cyy)))"

subsection \<open>Files, tables and the metric dictionary\<close>

text \<open>
  What \<open>pd.read_csv\<close> finds at a path: no file, a file that cannot be read, a file that
  does not parse, or a table.
\<close>

datatype 'a csv_file = Missing | Unreadable | Malformed | Parsed 'a

fun read_csv :: "'a csv_file \<Rightarrow> error + 'a" where
  "read_csv Missing = Inl FileNotFoundError"
| "read_csv Unreadable = Inl PermissionError"
| "read_csv Malformed = Inl ParserError"
| "read_csv (Parsed t) = Inr t"

text \<open>
  The tables keep the columns the script reads; a column is \<open>None\<close> when the header of the
  file does not have it. Other columns of the file are never touched.
\<close>

record run_frame =
  run :: "pyfloat list option"
  speedup :: "pyfloat list option"
  relative_error :: "pyfloat list option"

record stats_frame =
  metric :: "string list option"
  value_col :: "pyfloat list option"

text \<open>\<open>df[name]\<close> raises \<open>KeyError\<close> for an absent column.\<close>

fun getitem :: "string \<Rightarrow> 'a option \<Rightarrow> error + 'a" where
  "getitem name None = Inl (KeyError name)"
| "getitem name (Some c) = Inr c"

text \<open>\<open>dict(pairs)\<close> inserts the pairs in order; \<open>d[k]\<close> raises \<open>KeyError\<close>.\<close>

definition py_dict :: "('k \<times> 'v) list \<Rightarrow> ('k \<rightharpoonup> 'v)" where
  "py_dict ps = foldl (\<lambda>d (k, v). d(k \<mapsto> v)) Map.empty ps"

definition dict_get :: "(string \<rightharpoonup> 'v) \<Rightarrow> string \<Rightarrow> error + 'v" where
  "dict_get d k = (case d k of None \<Rightarrow> Inl (KeyError k) | Some v \<Rightarrow> Inr v)"

text \<open>Sequencing of statements that may raise.\<close>

fun and_then :: "error + 'a \<Rightarrow> ('a \<Rightarrow> error + 'b) \<Rightarrow> error + 'b" where
  "and_then (Inl e) f = Inl e"
| "and_then (Inr a) f = f a"

subsection \<open>Formatted strings\<close>

text \<open>
  An f-string is the sequence of its literal parts and replacement fields. A field keeps
  its format specification and its value: \<open>{n}\<close> of an integer, \<open>{x:.kf}\<close> and \<open>{x:g}\<close> of a
  float.
\<close>

datatype piece = Lit string | IntD int | Fixed nat pyfloat | General pyfloat

type_synonym fstring = "piece list"

definition nl :: string where
  "nl = [CHR 0x0A]"

text \<open>
  The text of a \<open>{x:.kf}\<close> field: \<open>k\<close> digits after the point, the exact value rounded to
  the nearest, ties to even.
\<close>

definition round_half_even :: "real \<Rightarrow> int" where
  "round_half_even x =
     (let f = \<lfloor>x\<rfloor>; d = x - of_int f
      in if d < 1 / 2 then f else if 1 / 2 < d then f + 1 else if even f then f else f + 1)"

definition digit :: "nat \<Rightarrow> char" where
  "digit n = ''0123456789'' ! n"

fun digits :: "nat \<Rightarrow> string" where
  "digits n = (if n < 10 then [digit n] else digits (n div 10) @ [digit (n mod 10)])"

definition zero_pad :: "nat \<Rightarrow> string \<Rightarrow> string" where
  "zero_pad k s = replicate (k - length s) (CHR ''0'') @ s"

fun format_f :: "nat \<Rightarrow> pyfloat \<Rightarrow> string" where
  "format_f k NaN = ''nan''"
| "format_f k (Num x) =
     (let n = nat (round_half_even (\<bar>x\<bar> * 10 ^ k));
          body = digits (n div 10 ^ k) @ (if k = 0 then [] else ''.'' @ zero_pad k (digits (n mod 10 ^ k)))
      in if x < 0 then ''-'' @ body else body)"

subsection \<open>Loading (lines 12 to 23)\<close>

record loaded =
  speedup_data :: run_frame
  avg_speedup :: pyfloat
  min_speedup :: pyfloat
  max_speedup :: pyfloat
  avg_error :: pyfloat
  min_error :: pyfloat
  max_error :: pyfloat
  num_runs :: int

record env =
  speedup_results_csv :: "run_frame csv_file"
  speedup_stats_csv :: "stats_frame csv_file"
  png_writable :: bool

definition load :: "env \<Rightarrow> error + loaded" where
  "load e =
     and_then (read_csv (speedup_results_csv e)) (\<lambda>sd.
     and_then (read_csv (speedup_stats_csv e)) (\<lambda>stats_data.
     and_then (getitem ''metric'' (metric stats_data)) (\<lambda>ms.
     and_then (getitem ''value'' (value_col stats_data)) (\<lambda>vs.
     let stats_dict = py_dict (zip ms vs) in
     and_then (dict_get stats_dict ''avg_speedup'') (\<lambda>avs.
     and_then (dict_get stats_dict ''min_speedup'') (\<lambda>mns.
     and_then (dict_get stats_dict ''max_speedup'') (\<lambda>mxs.
     and_then (dict_get stats_dict ''avg_error'') (\<lambda>ave.
     and_then (dict_get stats_dict ''min_error'') (\<lambda>mne.
     and_then (dict_get stats_dict ''max_error'') (\<lambda>mxe.
     and_then (dict_get stats_dict ''num_runs'') (\<lambda>nr.
     and_then (py_int nr) (\<lambda>n.
     Inr \<lparr>speedup_data = sd, avg_speedup = avs, min_speedup = mns, max_speedup = mxs,
          avg_error = ave, min_error = mne, max_error = mxe, num_runs = n\<rparr>))))))))))))"

subsection \<open>Printing\<close>

text \<open>
  A block of \<open>print\<close> statements: each evaluates its f-string, which may raise, and then
  prints it. The block stops at the first exception and keeps what was printed.
\<close>

fun print_all :: "(error + fstring) list \<Rightarrow> fstring list \<times> error option" where
  "print_all [] = ([], None)"
| "print_all (Inl e # rest) = ([], Some e)"
| "print_all (Inr l # rest) = (case print_all rest of (ls, r) \<Rightarrow> (l # ls, r))"

text \<open>Lines 25 to 33.\<close>

definition summary_block :: "loaded \<Rightarrow> (error + fstring) list" where
  "summary_block L =
     [Inr [Lit ''Statistics from '', IntD (num_runs L), Lit '' runs:''],
      Inr [Lit ''Average speedup: '', Fixed 4 (avg_speedup L), Lit ''x''],
      Inr [Lit ''Minimum speedup: '', Fixed 4 (min_speedup L), Lit ''x''],
      Inr [Lit ''Maximum speedup: '', Fixed 4 (max_speedup L), Lit ''x''],
      and_then (getitem ''speedup'' (speedup (speedup_data L))) (\<lambda>s.
        Inr [Lit ''Standard deviation speedup: '', Fixed 4 (std s)]),
      Inr [Lit ''Average relative error: '', General (avg_error L)],
      Inr [Lit ''Minimum relative error: '', General (min_error L)],
      Inr [Lit ''Maximum relative error: '', General (max_error L)],
      and_then (getitem ''relative_error'' (relative_error (speedup_data L))) (\<lambda>r.
        Inr [Lit ''Standard deviation error: '', General (std r)])]"

text \<open>Lines 113 and 117 to 126.\<close>

definition runs_line :: "string \<Rightarrow> pyfloat list \<Rightarrow> real \<Rightarrow> int \<Rightarrow> fstring" where
  "runs_line label s t n =
     [Lit label, IntD (count_gt s t), Lit ''/'', IntD n, Lit '' ('',
      Fixed 1 (fmul (mean_gt s t) 100), Lit ''%)'']"

definition additional_block :: "loaded \<Rightarrow> (error + fstring) list" where
  "additional_block L =
     (let s = getitem ''speedup'' (speedup (speedup_data L));
          r = getitem ''relative_error'' (relative_error (speedup_data L))
      in
      [Inr [Lit ''Plot saved as speedup_analysis.png''],
       Inr [Lit (nl @ ''Additional Statistics:'')],
       and_then s (\<lambda>s. Inr [Lit ''Median speedup: '', Fixed 4 (median s), Lit ''x'']),
       and_then s (\<lambda>s. Inr [Lit ''25th percentile speedup: '', Fixed 4 (quantile s 0.25), Lit ''x'']),
       and_then s (\<lambda>s. Inr [Lit ''75th percentile speedup: '', Fixed 4 (quantile s 0.75), Lit ''x'']),
       and_then s (\<lambda>s. Inr (runs_line ''Runs with speedup > 1.0x: '' s 1.0 (num_runs L))),
       and_then s (\<lambda>s. Inr (runs_line ''Runs with speedup > 1.5x: '' s 1.5 (num_runs L))),
       Inr [Lit (nl @ ''Error Statistics:'')],
       and_then r (\<lambda>r. Inr [Lit ''Median relative error: '', Fixed 6 (fmul (median r) 100), Lit ''%'']),
       and_then r (\<lambda>r. Inr [Lit ''25th percentile error: '', Fixed 6 (fmul (quantile r 0.25) 100), Lit ''%'']),
       and_then r (\<lambda>r. Inr [Lit ''75th percentile error: '', Fixed 6 (fmul (quantile r 0.75) 100), Lit ''%''])])"

subsection \<open>The figure (lines 36 to 112)\<close>

record figure =
  ax1_plot :: "(pyfloat \<times> pyfloat) list"
  ax1_label :: fstring
  ax2_hist :: "pyfloat list"
  ax2_label :: fstring
  ax3_boxplot :: "pyfloat list"
  ax3_text :: fstring
  ax4_scatter :: "(pyfloat \<times> pyfloat) list"
  ax4_label :: fstring
  ax4_text :: fstring

definition stats_text :: "loaded \<Rightarrow> pyfloat list \<Rightarrow> pyfloat list \<Rightarrow> fstring" where
  "stats_text L s r =
     [Lit (''SPEEDUP STATS:'' @ nl @ ''Mean: ''), Fixed 3 (avg_speedup L),
      Lit (''x'' @ nl @ ''Median: ''), Fixed 3 (median s),
      Lit (''x'' @ nl @ ''Std: ''), Fixed 3 (std s),
      Lit (nl @ ''Min: ''), Fixed 3 (min_speedup L),
      Lit (''x'' @ nl @ ''Max: ''), Fixed 3 (max_speedup L),
      Lit (''x'' @ nl @ nl @ ''ERROR STATS:'' @ nl @ ''Mean: ''), Fixed 4 (fmul (avg_error L) 100),
      Lit (''%'' @ nl @ ''Median: ''), Fixed 4 (fmul (median r) 100),
      Lit (''%'' @ nl @ ''Std: ''), Fixed 4 (fmul (std r) 100),
      Lit (''%'' @ nl @ ''Min: ''), Fixed 4 (fmul (min_error L) 100),
      Lit (''%'' @ nl @ ''Max: ''), Fixed 4 (fmul (max_error L) 100),
      Lit ''%'']"

text \<open>
  The columns are read where the panels use them; \<open>savefig\<close> raises when the output file
  cannot be written.
\<close>

definition render :: "bool \<Rightarrow> loaded \<Rightarrow> error + figure" where
  "render writable L =
     and_then (getitem ''run'' (run (speedup_data L))) (\<lambda>rn.
     and_then (getitem ''speedup'' (speedup (speedup_data L))) (\<lambda>s.
     and_then (getitem ''relative_error'' (relative_error (speedup_data L))) (\<lambda>r.
     if writable then
       Inr \<lparr>ax1_plot = zip rn s,
            ax1_label = [Lit ''Average: '', Fixed 3 (avg_speedup L), Lit ''x''],
            ax2_hist = s,
            ax2_label = [Lit ''Average: '', Fixed 3 (avg_speedup L), Lit ''x''],
            ax3_boxplot = s,
            ax3_text = stats_text L s r,
            ax4_scatter = zip s (map (\<lambda>v. fmul v 100) r),
            ax4_label = [Lit ''Avg error: '', Fixed 4 (fmul (avg_error L) 100), Lit ''%''],
            ax4_text =
              [Lit ''Correlation: '', Fixed 3 (corr s r),
               Lit (nl @ ''Runs > 1.0x: ''), IntD (count_gt s 1.0), Lit ''/'', IntD (num_runs L)]\<rparr>
     else Inl PermissionError)))"

subsection \<open>The run\<close>

record outcome =
  stdout :: "fstring list"
  image :: "figure option"
  exc :: "error option"

definition main :: "env \<Rightarrow> outcome" where
  "main e =
     (case load e of
        Inl x \<Rightarrow> \<lparr>stdout = [], image = None, exc = Some x\<rparr>
      | Inr L \<Rightarrow>
          (case print_all (summary_block L) of
             (out1, Some x) \<Rightarrow> \<lparr>stdout = out1, image = None, exc = Some x\<rparr>
           | (out1, None) \<Rightarrow>
               (case render (png_writable e) L of
                  Inl x \<Rightarrow> \<lparr>stdout = out1, image = None, exc = Some x\<rparr>
                | Inr fig \<Rightarrow>
                    (case print_all (additional_block L) of
                       (out2, r) \<Rightarrow> \<lparr>stdout = out1 @ out2, image = Some fig, exc = r\<rparr>))))"

text \<open>The exit status of the interpreter: 1 after an uncaught exception.\<close>

definition exit_status :: "outcome \<Rightarrow> nat" where
  "exit_status out = (case exc out of None \<Rightarrow> 0 | Some x \<Rightarrow> 1)"

subsection \<open>Notions of the specification and inputs used below\<close>

text \<open>The seven metrics that lines 17 to 23 look up.\<close>

definition required_metrics :: "string list" where
  "required_metrics =
     [''avg_speedup'', ''min_speedup'', ''max_speedup'',
      ''avg_error'', ''min_error'', ''max_error'', ''num_runs'']"

text \<open>A stats table given by its rows, one \<open>(metric, value)\<close> pair per row.\<close>

definition stats_rows :: "(string \<times> pyfloat) list \<Rightarrow> stats_frame" where
  "stats_rows rows = \<lparr>metric = Some (map fst rows), value_col = Some (map snd rows)\<rparr>"

text \<open>
  The end-to-end scenario of the specification: five runs, and a Stats Record with the four
  values it names. The three error metrics, which the scenario leaves open, and the \<open>run\<close>
  column are parameters.
\<close>

definition scenario_env :: "pyfloat list \<Rightarrow> pyfloat \<Rightarrow> pyfloat \<Rightarrow> pyfloat \<Rightarrow> env" where
  "scenario_env rn ae mne mxe =
     \<lparr>speedup_results_csv = Parsed
        \<lparr>run = Some rn,
         speedup = Some (map Num [0.9, 1.0, 1.1, 1.2, 2.0]),
         relative_error = Some (map Num [0.01, 0.02, 0.01, 0.03, 0.05])\<rparr>,
      speedup_stats_csv = Parsed (stats_rows
        [(''avg_speedup'', Num 1.24), (''min_speedup'', Num 0.9), (''max_speedup'', Num 2.0),
         (''avg_error'', ae), (''min_error'', mne), (''max_error'', mxe),
         (''num_runs'', Num 5)]),
      png_writable = True\<rparr>"

text \<open>A small well-formed input: three runs and the seven metrics.\<close>

definition sample_runs :: run_frame where
  "sample_runs =
     \<lparr>run = Some (map Num [1, 2, 3]),
      speedup = Some (map Num [1, 3, 5]),
      relative_error = Some (map Num [0.01, 0.03, 0.05])\<rparr>"

definition sample_stats :: "pyfloat \<Rightarrow> (string \<times> pyfloat) list" where
  "sample_stats nr =
     [(''avg_speedup'', Num 3), (''min_speedup'', Num 1), (''max_speedup'', Num 5),
      (''avg_error'', Num 0.03), (''min_error'', Num 0.01), (''max_error'', Num 0.05),
      (''num_runs'', nr)]"

definition env_of :: "run_frame \<Rightarrow> (string \<times> pyfloat) list \<Rightarrow> env" where
  "env_of fr rows =
     \<lparr>speedup_results_csv = Parsed fr,
      speedup_stats_csv = Parsed (stats_rows rows),
      png_writable = True\<rparr>"

definition sample_env :: env where
  "sample_env = env_of sample_runs (sample_stats (Num 3))"

text \<open>The format specifications of the float fields of an f-string, in order.\<close>

datatype float_spec = F nat | G

fun float_specs :: "fstring \<Rightarrow> float_spec list" where
  "float_specs [] = []"
| "float_specs (Fixed k v # rest) = F k # float_specs rest"
| "float_specs (General v # rest) = G # float_specs rest"
| "float_specs (p # rest) = float_specs rest"

text \<open>
  ``Formatted as a percentage with 4 to 6 decimal places'': a fixed-point field of 4 to 6
  decimals with a percent sign right after it.
\<close>

fun pct_formatted :: "fstring \<Rightarrow> bool" where
  "pct_formatted [] = False"
| "pct_formatted (Fixed k v # Lit s # rest) =
     (if 4 \<le> k \<and> k \<le> 6 \<and> take 1 s = ''%'' then True else pct_formatted rest)"
| "pct_formatted (p # rest) = pct_formatted rest"

section \<open>Properties\<close>

subsection \<open>The phases of a run\<close>

lemma load_Inr:
  assumes "speedup_results_csv e = Parsed sd" and "speedup_stats_csv e = Parsed st"
    and "metric st = Some ms" and "value_col st = Some vs"
    and "py_dict (zip ms vs) ''avg_speedup'' = Some a1"
    and "py_dict (zip ms vs) ''min_speedup'' = Some a2"
    and "py_dict (zip ms vs) ''max_speedup'' = Some a3"
    and "py_dict (zip ms vs) ''avg_error'' = Some b1"
    and "py_dict (zip ms vs) ''min_error'' = Some b2"
    and "py_dict (zip ms vs) ''max_error'' = Some b3"
    and "py_dict (zip ms vs) ''num_runs'' = Some (Num n)"
  shows "load e = Inr \<lparr>speedup_data = sd, avg_speedup = a1, min_speedup = a2, max_speedup = a3,
           avg_error = b1, min_error = b2, max_error = b3, num_runs = trunc_toward_zero n\<rparr>"
  using assms by (simp add: load_def dict_get_def)

lemma print_summary:
  assumes "speedup (speedup_data L) = Some s" and "relative_error (speedup_data L) = Some r"
  shows "print_all (summary_block L) =
    ([[Lit ''Statistics from '', IntD (num_runs L), Lit '' runs:''],
      [Lit ''Average speedup: '', Fixed 4 (avg_speedup L), Lit ''x''],
      [Lit ''Minimum speedup: '', Fixed 4 (min_speedup L), Lit ''x''],
      [Lit ''Maximum speedup: '', Fixed 4 (max_speedup L), Lit ''x''],
      [Lit ''Standard deviation speedup: '', Fixed 4 (std s)],
      [Lit ''Average relative error: '', General (avg_error L)],
      [Lit ''Minimum relative error: '', General (min_error L)],
      [Lit ''Maximum relative error: '', General (max_error L)],
      [Lit ''Standard deviation error: '', General (std r)]], None)"
  using assms by (simp add: summary_block_def)

lemma print_additional:
  assumes "speedup (speedup_data L) = Some s" and "relative_error (speedup_data L) = Some r"
  shows "print_all (additional_block L) =
    ([[Lit ''Plot saved as speedup_analysis.png''],
      [Lit (nl @ ''Additional Statistics:'')],
      [Lit ''Median speedup: '', Fixed 4 (median s), Lit ''x''],
      [Lit ''25th percentile speedup: '', Fixed 4 (quantile s 0.25), Lit ''x''],
      [Lit ''75th percentile speedup: '', Fixed 4 (quantile s 0.75), Lit ''x''],
      runs_line ''Runs with speedup > 1.0x: '' s 1.0 (num_runs L),
      runs_line ''Runs with speedup > 1.5x: '' s 1.5 (num_runs L),
      [Lit (nl @ ''Error Statistics:'')],
      [Lit ''Median relative error: '', Fixed 6 (fmul (median r) 100), Lit ''%''],
      [Lit ''25th percentile error: '', Fixed 6 (fmul (quantile r 0.25) 100), Lit ''%''],
      [Lit ''75th percentile error: '', Fixed 6 (fmul (quantile r 0.75) 100), Lit ''%'']], None)"
  using assms by (simp add: additional_block_def)

lemma print_summary_no_speedup:
  assumes "speedup (speedup_data L) = None"
  shows "print_all (summary_block L) =
    ([[Lit ''Statistics from '', IntD (num_runs L), Lit '' runs:''],
      [Lit ''Average speedup: '', Fixed 4 (avg_speedup L), Lit ''x''],
      [Lit ''Minimum speedup: '', Fixed 4 (min_speedup L), Lit ''x''],
      [Lit ''Maximum speedup: '', Fixed 4 (max_speedup L), Lit ''x'']], Some (KeyError ''speedup''))"
  using assms by (simp add: summary_block_def)

lemma print_summary_no_error:
  assumes "speedup (speedup_data L) = Some s" and "relative_error (speedup_data L) = None"
  shows "print_all (summary_block L) =
    ([[Lit ''Statistics from '', IntD (num_runs L), Lit '' runs:''],
      [Lit ''Average speedup: '', Fixed 4 (avg_speedup L), Lit ''x''],
      [Lit ''Minimum speedup: '', Fixed 4 (min_speedup L), Lit ''x''],
      [Lit ''Maximum speedup: '', Fixed 4 (max_speedup L), Lit ''x''],
      [Lit ''Standard deviation speedup: '', Fixed 4 (std s)],
      [Lit ''Average relative error: '', General (avg_error L)],
      [Lit ''Minimum relative error: '', General (min_error L)],
      [Lit ''Maximum relative error: '', General (max_error L)]], Some (KeyError ''relative_error''))"
  using assms by (simp add: summary_block_def)

lemma main_success:
  assumes "load e = Inr L"
    and "run (speedup_data L) = Some rn"
    and "speedup (speedup_data L) = Some s" and "relative_error (speedup_data L) = Some r"
    and "png_writable e"
  shows "stdout (main e) =
     [[Lit ''Statistics from '', IntD (num_runs L), Lit '' runs:''],
      [Lit ''Average speedup: '', Fixed 4 (avg_speedup L), Lit ''x''],
      [Lit ''Minimum speedup: '', Fixed 4 (min_speedup L), Lit ''x''],
      [Lit ''Maximum speedup: '', Fixed 4 (max_speedup L), Lit ''x''],
      [Lit ''Standard deviation speedup: '', Fixed 4 (std s)],
      [Lit ''Average relative error: '', General (avg_error L)],
      [Lit ''Minimum relative error: '', General (min_error L)],
      [Lit ''Maximum relative error: '', General (max_error L)],
      [Lit ''Standard deviation error: '', General (std r)],
      [Lit ''Plot saved as speedup_analysis.png''],
      [Lit (nl @ ''Additional Statistics:'')],
      [Lit ''Median speedup: '', Fixed 4 (median s), Lit ''x''],
      [Lit ''25th percentile speedup: '', Fixed 4 (quantile s 0.25), Lit ''x''],
      [Lit ''75th percentile speedup: '', Fixed 4 (quantile s 0.75), Lit ''x''],
      runs_line ''Runs with speedup > 1.0x: '' s 1.0 (num_runs L),
      runs_line ''Runs with speedup > 1.5x: '' s 1.5 (num_runs L),
      [Lit (nl @ ''Error Statistics:'')],
      [Lit ''Median relative error: '', Fixed 6 (fmul (median r) 100), Lit ''%''],
      [Lit ''25th percentile error: '', Fixed 6 (fmul (quantile r 0.25) 100), Lit ''%''],
      [Lit ''75th percentile error: '', Fixed 6 (fmul (quantile r 0.75) 100), Lit ''%'']]"
    and "exc (main e) = None"
    and "\<exists>fig. image (main e) = Some fig \<and> ax4_text fig =
              [Lit ''Correlation: '', Fixed 3 (corr s r),
               Lit (nl @ ''Runs > 1.0x: ''), IntD (count_gt s 1.0), Lit ''/'', IntD (num_runs L)]"
  using assms by (simp_all add: main_def print_summary print_additional render_def)

lemma main_complete:
  assumes "exc (main e) = None"
  shows "\<exists>L rn s r. load e = Inr L \<and> run (speedup_data L) = Some rn \<and>
     speedup (speedup_data L) = Some s \<and> relative_error (speedup_data L) = Some r \<and> png_writable e"
proof -
  obtain L where L: "load e = Inr L"
    using assms by (cases "load e") (simp_all add: main_def)
  obtain s where s: "speedup (speedup_data L) = Some s"
    using assms L by (cases "speedup (speedup_data L)") (simp_all add: main_def print_summary_no_speedup)
  obtain r where r: "relative_error (speedup_data L) = Some r"
    using assms L s by (cases "relative_error (speedup_data L)") (simp_all add: main_def print_summary_no_error)
  obtain rn where rn: "run (speedup_data L) = Some rn"
    using assms L s r by (cases "run (speedup_data L)") (simp_all add: main_def print_summary render_def)
  have "png_writable e"
    using assms L s r rn by (cases "png_writable e") (simp_all add: main_def print_summary render_def)
  with L s r rn show ?thesis by blast
qed

lemma main_complete_stdout:
  assumes "exc (main e) = None"
  shows "\<exists>L s r. load e = Inr L \<and> speedup (speedup_data L) = Some s \<and>
     relative_error (speedup_data L) = Some r \<and>
     stdout (main e) =
     [[Lit ''Statistics from '', IntD (num_runs L), Lit '' runs:''],
      [Lit ''Average speedup: '', Fixed 4 (avg_speedup L), Lit ''x''],
      [Lit ''Minimum speedup: '', Fixed 4 (min_speedup L), Lit ''x''],
      [Lit ''Maximum speedup: '', Fixed 4 (max_speedup L), Lit ''x''],
      [Lit ''Standard deviation speedup: '', Fixed 4 (std s)],
      [Lit ''Average relative error: '', General (avg_error L)],
      [Lit ''Minimum relative error: '', General (min_error L)],
      [Lit ''Maximum relative error: '', General (max_error L)],
      [Lit ''Standard deviation error: '', General (std r)],
      [Lit ''Plot saved as speedup_analysis.png''],
      [Lit (nl @ ''Additional Statistics:'')],
      [Lit ''Median speedup: '', Fixed 4 (median s), Lit ''x''],
      [Lit ''25th percentile speedup: '', Fixed 4 (quantile s 0.25), Lit ''x''],
      [Lit ''75th percentile speedup: '', Fixed 4 (quantile s 0.75), Lit ''x''],
      runs_line ''Runs with speedup > 1.0x: '' s 1.0 (num_runs L),
      runs_line ''Runs with speedup > 1.5x: '' s 1.5 (num_runs L),
      [Lit (nl @ ''Error Statistics:'')],
      [Lit ''Median relative error: '', Fixed 6 (fmul (median r) 100), Lit ''%''],
      [Lit ''25th percentile error: '', Fixed 6 (fmul (quantile r 0.25) 100), Lit ''%''],
      [Lit ''75th percentile error: '', Fixed 6 (fmul (quantile r 0.75) 100), Lit ''%'']]"
proof -
  from main_complete [OF assms] obtain L rn s r where
    "load e = Inr L" "run (speedup_data L) = Some rn" "speedup (speedup_data L) = Some s"
    "relative_error (speedup_data L) = Some r" "png_writable e"
    by blast
  then show ?thesis
    using main_success(1) [of e L rn s r] by blast
qed

lemma main_load_fails:
  assumes "load e = Inl x"
  shows "main e = \<lparr>stdout = [], image = None, exc = Some x\<rparr>"
  using assms by (simp add: main_def)

lemma main_no_speedup:
  assumes "load e = Inr L" and "speedup (speedup_data L) = None"
  shows "main e =
     \<lparr>stdout =
        [[Lit ''Statistics from '', IntD (num_runs L), Lit '' runs:''],
         [Lit ''Average speedup: '', Fixed 4 (avg_speedup L), Lit ''x''],
         [Lit ''Minimum speedup: '', Fixed 4 (min_speedup L), Lit ''x''],
         [Lit ''Maximum speedup: '', Fixed 4 (max_speedup L), Lit ''x'']],
      image = None, exc = Some (KeyError ''speedup'')\<rparr>"
  using assms by (simp add: main_def print_summary_no_speedup)

lemma main_no_relative_error:
  assumes "load e = Inr L" and "speedup (speedup_data L) = Some s"
    and "relative_error (speedup_data L) = None"
  shows "length (stdout (main e)) = 8" and "image (main e) = None"
    and "exc (main e) = Some (KeyError ''relative_error'')"
  using assms by (simp_all add: main_def print_summary_no_error)

lemma main_no_run:
  assumes "load e = Inr L" and "speedup (speedup_data L) = Some s"
    and "relative_error (speedup_data L) = Some r" and "run (speedup_data L) = None"
  shows "length (stdout (main e)) = 9" and "image (main e) = None"
    and "exc (main e) = Some (KeyError ''run'')"
  using assms by (simp_all add: main_def print_summary render_def)


subsection \<open>The metric dictionary\<close>




lemma metrics_lookup:
  assumes "those (map (py_dict rows) required_metrics) = Some [a1, a2, a3, b1, b2, b3, c]"
  shows "py_dict rows ''avg_speedup'' = Some a1" and "py_dict rows ''min_speedup'' = Some a2"
    and "py_dict rows ''max_speedup'' = Some a3" and "py_dict rows ''avg_error'' = Some b1"
    and "py_dict rows ''min_error'' = Some b2" and "py_dict rows ''max_error'' = Some b3"
    and "py_dict rows ''num_runs'' = Some c"
  using assms by (simp_all add: required_metrics_def split: option.splits)

lemma load_rows:
  assumes "speedup_results_csv e = Parsed sd" and "speedup_stats_csv e = Parsed (stats_rows rows)"
    and "those (map (py_dict rows) required_metrics) = Some [a1, a2, a3, b1, b2, b3, Num n]"
  shows "load e = Inr \<lparr>speedup_data = sd, avg_speedup = a1, min_speedup = a2, max_speedup = a3,
           avg_error = b1, min_error = b2, max_error = b3, num_runs = trunc_toward_zero n\<rparr>"
  using metrics_lookup [OF assms(3)]
    load_Inr [OF assms(1) assms(2), of "map fst rows" "map snd rows" a1 a2 a3 b1 b2 b3 n]
  by (simp add: stats_rows_def zip_map_fst_snd)


subsection \<open>The inputs\<close>

lemma load_sample:
  "load (env_of fr (sample_stats nr)) =
     and_then (py_int nr) (\<lambda>k.
       Inr \<lparr>speedup_data = fr, avg_speedup = Num 3, min_speedup = Num 1,
            max_speedup = Num 5, avg_error = Num 0.03, min_error = Num 0.01,
            max_error = Num 0.05, num_runs = k\<rparr>)"
  by (simp add: load_def env_of_def sample_stats_def stats_rows_def dict_get_def py_dict_def)

lemma load_sample_three:
  "load (env_of fr (sample_stats (Num 3))) =
     Inr \<lparr>speedup_data = fr, avg_speedup = Num 3, min_speedup = Num 1,
          max_speedup = Num 5, avg_error = Num 0.03, min_error = Num 0.01,
          max_error = Num 0.05, num_runs = 3\<rparr>"
  by (simp add: load_sample trunc_toward_zero_def)

lemma load_sample_env:
  "load sample_env =
     Inr \<lparr>speedup_data = sample_runs, avg_speedup = Num 3, min_speedup = Num 1,
          max_speedup = Num 5, avg_error = Num 0.03, min_error = Num 0.01,
          max_error = Num 0.05, num_runs = 3\<rparr>"
  unfolding sample_env_def by (rule load_sample_three)

lemma sample_writable: "png_writable (env_of fr rows)"
  by (simp add: env_of_def)

lemma sample_metrics:
  "those (map (py_dict (sample_stats nr)) required_metrics) =
     Some [Num 3, Num 1, Num 5, Num 0.03, Num 0.01, Num 0.05, nr]"
  by (simp add: sample_stats_def required_metrics_def py_dict_def)

lemma load_scenario:
  "load (scenario_env rn ae mne mxe) =
     Inr \<lparr>speedup_data = \<lparr>run = Some rn, speedup = Some (map Num [0.9, 1.0, 1.1, 1.2, 2.0]),
             relative_error = Some (map Num [0.01, 0.02, 0.01, 0.03, 0.05])\<rparr>,
          avg_speedup = Num 1.24, min_speedup = Num 0.9, max_speedup = Num 2.0,
          avg_error = ae, min_error = mne, max_error = mxe, num_runs = 5\<rparr>"
  by (simp add: load_def scenario_env_def stats_rows_def dict_get_def py_dict_def
      trunc_toward_zero_def)

lemma sample_complete: "exc (main sample_env) = None"
  unfolding sample_env_def
  by (rule main_success(2) [OF load_sample_three _ _ _ sample_writable])
    (simp_all add: sample_runs_def)

subsection \<open>Truncation toward zero\<close>




subsection \<open>Correlation of columns without NaN\<close>










section \<open>The claims\<close>

text \<open>
  C1. In the end-to-end scenario (speedups 0.9, 1.0, 1.1, 1.2, 2.0; a Stats Record with
  \<open>avg_speedup = 1.24\<close>, \<open>min_speedup = 0.9\<close>, \<open>max_speedup = 2.0\<close>, \<open>num_runs = 5\<close>) the run
  completes, the median speedup is 1.1, and the line for the threshold 1.0 reports 3 of 5
  runs, with the percentage 60 printed as \<open>60.0\<close>. This holds whatever the three error
  metrics and the \<open>run\<close> column are.
\<close>

theorem scenario_median_and_count:
  "exc (main (scenario_env rn ae mne mxe)) = None \<and>
   median (map Num [0.9, 1.0, 1.1, 1.2, 2.0]) = Num 1.1 \<and>
   stdout (main (scenario_env rn ae mne mxe)) ! 11 =
     [Lit ''Median speedup: '', Fixed 4 (Num 1.1), Lit ''x''] \<and>
   stdout (main (scenario_env rn ae mne mxe)) ! 14 =
     [Lit ''Runs with speedup > 1.0x: '', IntD 3, Lit ''/'', IntD 5, Lit '' ('',
      Fixed 1 (Num 60), Lit ''%)''] \<and>
   format_f 1 (Num 60) = ''60.0''"
proof -
  let ?e = "scenario_env rn ae mne mxe"
  let ?s = "map Num [0.9, 1.0, 1.1, 1.2, 2.0]"
  let ?r = "map Num [0.01, 0.02, 0.01, 0.03, 0.05]"
  have w: "png_writable ?e" by (simp add: scenario_env_def)
  note L = load_scenario [of rn ae mne mxe]
  note ok = main_success [OF L, of rn ?s ?r, simplified, OF w]
  have m: "median (map Num [0.9, 1.0, 1.1, 1.2, 2.0]) = Num 1.1"
    by (simp add: median_def)
  have c: "runs_line lbl (map Num [0.9, 1.0, 1.1, 1.2, 2.0]) 1.0 5 =
      [Lit lbl, IntD 3, Lit ''/'', IntD 5, Lit '' ('', Fixed 1 (Num 60), Lit ''%)'']" for lbl
    by (simp add: runs_line_def count_gt_def mean_gt_def)
  have f: "format_f 1 (Num 60) = ''60.0''"
    by (simp add: round_half_even_def zero_pad_def digit_def)
  have "exc (main ?e) = None"
    using ok(2) by simp
  moreover have "stdout (main ?e) ! 11 = [Lit ''Median speedup: '', Fixed 4 (Num 1.1), Lit ''x'']"
    using ok(1) m by simp
  moreover have "stdout (main ?e) ! 14 =
     [Lit ''Runs with speedup > 1.0x: '', IntD 3, Lit ''/'', IntD 5, Lit '' ('',
      Fixed 1 (Num 60), Lit ''%)'']"
    using ok(1) c by simp
  ultimately show ?thesis using m f by simp
qed

text \<open>
  C2. When both files load, the columns are present and the figure can be written, the
  run completes even though the loaded run count differs from the number of rows; the
  header, the two threshold lines and the note on the scatter panel show the loaded run
  count, next to counts taken from the rows.
\<close>

theorem run_count_not_cross_validated:
  assumes "speedup_results_csv e = Parsed \<lparr>run = Some rn, speedup = Some s, relative_error = Some r\<rparr>"
    and "speedup_stats_csv e = Parsed (stats_rows rows)"
    and "those (map (py_dict rows) required_metrics) = Some [a1, a2, a3, b1, b2, b3, Num n]"
    and "png_writable e"
    and "trunc_toward_zero n \<noteq> int (length s)"
  shows "exc (main e) = None \<and>
     stdout (main e) ! 0 = [Lit ''Statistics from '', IntD (trunc_toward_zero n), Lit '' runs:''] \<and>
     stdout (main e) ! 14 =
       [Lit ''Runs with speedup > 1.0x: '', IntD (count_gt s 1.0), Lit ''/'',
        IntD (trunc_toward_zero n), Lit '' ('', Fixed 1 (fmul (mean_gt s 1.0) 100), Lit ''%)''] \<and>
     stdout (main e) ! 15 =
       [Lit ''Runs with speedup > 1.5x: '', IntD (count_gt s 1.5), Lit ''/'',
        IntD (trunc_toward_zero n), Lit '' ('', Fixed 1 (fmul (mean_gt s 1.5) 100), Lit ''%)''] \<and>
     (\<exists>fig. image (main e) = Some fig \<and> ax4_text fig =
        [Lit ''Correlation: '', Fixed 3 (corr s r), Lit (nl @ ''Runs > 1.0x: ''),
         IntD (count_gt s 1.0), Lit ''/'', IntD (trunc_toward_zero n)])"
proof -
  note L = load_rows [OF assms(1) assms(2) assms(3)]
  note ok = main_success [OF L, of rn s r, simplified, OF assms(4)]
  show ?thesis
    using ok by (simp add: runs_line_def)
qed

theorem run_count_not_cross_validated_witness:
  "trunc_toward_zero 7 \<noteq> int (length (map Num [1, 3, 5])) \<and>
   exc (main (env_of sample_runs (sample_stats (Num 7)))) = None \<and>
   stdout (main (env_of sample_runs (sample_stats (Num 7)))) ! 0 =
     [Lit ''Statistics from '', IntD 7, Lit '' runs:''] \<and>
   stdout (main (env_of sample_runs (sample_stats (Num 7)))) ! 14 =
     [Lit ''Runs with speedup > 1.0x: '', IntD 2, Lit ''/'', IntD 7, Lit '' ('',
      Fixed 1 (Num (200 / 3)), Lit ''%)'']"
proof -
  let ?e = "env_of sample_runs (sample_stats (Num 7))"
  have t: "trunc_toward_zero 7 = 7"
    by (simp add: trunc_toward_zero_def)
  have 1: "speedup_results_csv ?e = Parsed \<lparr>run = Some (map Num [1, 2, 3]),
      speedup = Some (map Num [1, 3, 5]), relative_error = Some (map Num [0.01, 0.03, 0.05])\<rparr>"
    by (simp add: env_of_def sample_runs_def)
  have 2: "speedup_stats_csv ?e = Parsed (stats_rows (sample_stats (Num 7)))"
    by (simp add: env_of_def)
  have 4: "png_writable ?e"
    by (simp add: env_of_def)
  have 5: "trunc_toward_zero 7 \<noteq> int (length (map Num [1, 3, 5]))"
    by (simp add: t)
  have c: "count_gt (map Num [1, 3, 5]) 1.0 = 2" "fmul (mean_gt (map Num [1, 3, 5]) 1.0) 100 = Num (200 / 3)"
    by (simp_all add: count_gt_def mean_gt_def)
  show ?thesis
    using run_count_not_cross_validated [OF 1 2 sample_metrics 4 5] 5 c by (simp add: t)
qed

text \<open>
  C3 (as amended). A run that completes prints twenty lines in this order: the loaded run
  count and the loaded average, minimum and maximum speedup; the standard deviation of the
  \<open>speedup\<close> column; the loaded average, minimum and maximum error; the standard deviation
  of the \<open>relative_error\<close> column; the note on the saved plot; then the median, the two
  percentiles and the two threshold counts of \<open>speedup\<close> (each count over the loaded run
  count), and the median and the two percentiles of \<open>relative_error\<close>.
\<close>

theorem report_sequence:
  assumes "exc (main e) = None"
  shows "\<exists>L s r. load e = Inr L \<and> speedup (speedup_data L) = Some s \<and>
     relative_error (speedup_data L) = Some r \<and>
     stdout (main e) =
     [[Lit ''Statistics from '', IntD (num_runs L), Lit '' runs:''],
      [Lit ''Average speedup: '', Fixed 4 (avg_speedup L), Lit ''x''],
      [Lit ''Minimum speedup: '', Fixed 4 (min_speedup L), Lit ''x''],
      [Lit ''Maximum speedup: '', Fixed 4 (max_speedup L), Lit ''x''],
      [Lit ''Standard deviation speedup: '', Fixed 4 (std s)],
      [Lit ''Average relative error: '', General (avg_error L)],
      [Lit ''Minimum relative error: '', General (min_error L)],
      [Lit ''Maximum relative error: '', General (max_error L)],
      [Lit ''Standard deviation error: '', General (std r)],
      [Lit ''Plot saved as speedup_analysis.png''],
      [Lit (nl @ ''Additional Statistics:'')],
      [Lit ''Median speedup: '', Fixed 4 (median s), Lit ''x''],
      [Lit ''25th percentile speedup: '', Fixed 4 (quantile s 0.25), Lit ''x''],
      [Lit ''75th percentile speedup: '', Fixed 4 (quantile s 0.75), Lit ''x''],
      [Lit ''Runs with speedup > 1.0x: '', IntD (count_gt s 1.0), Lit ''/'', IntD (num_runs L),
       Lit '' ('', Fixed 1 (fmul (mean_gt s 1.0) 100), Lit ''%)''],
      [Lit ''Runs with speedup > 1.5x: '', IntD (count_gt s 1.5), Lit ''/'', IntD (num_runs L),
       Lit '' ('', Fixed 1 (fmul (mean_gt s 1.5) 100), Lit ''%)''],
      [Lit (nl @ ''Error Statistics:'')],
      [Lit ''Median relative error: '', Fixed 6 (fmul (median r) 100), Lit ''%''],
      [Lit ''25th percentile error: '', Fixed 6 (fmul (quantile r 0.25) 100), Lit ''%''],
      [Lit ''75th percentile error: '', Fixed 6 (fmul (quantile r 0.75) 100), Lit ''%'']]"
  using main_complete_stdout [OF assms] unfolding runs_line_def .

theorem report_sequence_witness:
  "exc (main sample_env) = None \<and> length (stdout (main sample_env)) = 20 \<and>
   stdout (main sample_env) ! 4 = [Lit ''Standard deviation speedup: '', Fixed 4 (Num 2)] \<and>
   stdout (main sample_env) ! 5 = [Lit ''Average relative error: '', General (Num 0.03)]"
proof -
  have "std (map Num [1, 3, 5]) = Num 2"
    by (simp add: std_def ssqdm_def mean_of_def power2_eq_square)
  moreover note load_sample_env
  ultimately show ?thesis
    using report_sequence [OF sample_complete] sample_complete
    by (auto simp: sample_runs_def)
qed

text \<open>
  The claim as stated fails: the fifth line is derived from the Run Records (with the
  Stats Record fixed, it changes with the \<open>speedup\<close> column) and the sixth line is a loaded
  value (with the Run Records fixed, it changes with the \<open>avg_error\<close> row), so a derived
  statistic is printed before a loaded one.
\<close>

theorem derived_before_loaded_counterexample:
  "stdout (main (env_of sample_runs (sample_stats (Num 3)))) ! 4 =
     [Lit ''Standard deviation speedup: '', Fixed 4 (Num 2)] \<and>
   stdout (main (env_of (sample_runs\<lparr>speedup := Some (map Num [1, 1, 1])\<rparr>) (sample_stats (Num 3)))) ! 4 =
     [Lit ''Standard deviation speedup: '', Fixed 4 (Num 0)] \<and>
   stdout (main (env_of sample_runs (sample_stats (Num 3)))) ! 5 =
     [Lit ''Average relative error: '', General (Num 0.03)] \<and>
   stdout (main (env_of sample_runs
       [(''avg_speedup'', Num 3), (''min_speedup'', Num 1), (''max_speedup'', Num 5),
        (''avg_error'', Num 0.5), (''min_error'', Num 0.01), (''max_error'', Num 0.05),
        (''num_runs'', Num 3)])) ! 5 =
     [Lit ''Average relative error: '', General (Num 0.5)]"
proof -
  let ?rows = "[(''avg_speedup'', Num 3), (''min_speedup'', Num 1), (''max_speedup'', Num 5),
        (''avg_error'', Num 0.5), (''min_error'', Num 0.01), (''max_error'', Num 0.05),
        (''num_runs'', Num 3)]"
  have s: "std (map Num [1, 3, 5]) = Num 2" "std (map Num [1, 1, 1]) = Num 0"
    by (simp_all add: std_def ssqdm_def mean_of_def power2_eq_square)
  note w = sample_writable and L = load_sample_three
  have L': "load (env_of fr ?rows) =
      Inr \<lparr>speedup_data = fr, avg_speedup = Num 3, min_speedup = Num 1,
            max_speedup = Num 5, avg_error = Num 0.5, min_error = Num 0.01,
            max_error = Num 0.05, num_runs = 3\<rparr>" for fr
    by (simp add: load_def env_of_def stats_rows_def dict_get_def py_dict_def
        trunc_toward_zero_def)
  note a = main_success(1) [OF L [of sample_runs] _ _ _ w, of "map Num [1, 2, 3]" "map Num [1, 3, 5]"
      "map Num [0.01, 0.03, 0.05]"]
  note b = main_success(1) [OF L [of "sample_runs\<lparr>speedup := Some (map Num [1, 1, 1])\<rparr>"] _ _ _ w,
      of "map Num [1, 2, 3]" "map Num [1, 1, 1]" "map Num [0.01, 0.03, 0.05]"]
  note c = main_success(1) [OF L' [of sample_runs] _ _ _ w, of "map Num [1, 2, 3]" "map Num [1, 3, 5]"
      "map Num [0.01, 0.03, 0.05]"]
  have "stdout (main (env_of sample_runs (sample_stats (Num 3)))) ! 4 =
     [Lit ''Standard deviation speedup: '', Fixed 4 (Num 2)]"
    using a s by (simp add: sample_runs_def)
  moreover have "stdout (main (env_of (sample_runs\<lparr>speedup := Some (map Num [1, 1, 1])\<rparr>) (sample_stats (Num 3)))) ! 4 =
     [Lit ''Standard deviation speedup: '', Fixed 4 (Num 0)]"
    using b s by (simp add: sample_runs_def)
  moreover have "stdout (main (env_of sample_runs (sample_stats (Num 3)))) ! 5 =
     [Lit ''Average relative error: '', General (Num 0.03)]"
    using a by (simp add: sample_runs_def)
  moreover have "stdout (main (env_of sample_runs ?rows)) ! 5 =
     [Lit ''Average relative error: '', General (Num 0.5)]"
    using c by (simp add: sample_runs_def)
  ultimately show ?thesis by blast
qed

text \<open>
  C4 (as amended). In the report of a run that completes, every speedup ratio (average,
  minimum, maximum, standard deviation, median, both percentiles) is a fixed-point field of
  4 decimals; the median and the two percentiles of \<open>relative_error\<close> are printed as
  percentages, the fraction times 100 with 6 decimals and a percent sign; the average,
  minimum, maximum and standard deviation of \<open>relative_error\<close> are printed as the fraction
  itself in general format, not as percentages.
\<close>

theorem report_formats:
  assumes "exc (main e) = None"
  shows "map float_specs (stdout (main e)) =
       [[], [F 4], [F 4], [F 4], [F 4], [G], [G], [G], [G], [], [],
        [F 4], [F 4], [F 4], [F 1], [F 1], [], [F 6], [F 6], [F 6]] \<and>
     map pct_formatted (stdout (main e)) =
       [False, False, False, False, False, False, False, False, False, False, False,
        False, False, False, False, False, False, True, True, True] \<and>
     (\<exists>L r. load e = Inr L \<and> relative_error (speedup_data L) = Some r \<and>
        stdout (main e) ! 5 = [Lit ''Average relative error: '', General (avg_error L)] \<and>
        stdout (main e) ! 6 = [Lit ''Minimum relative error: '', General (min_error L)] \<and>
        stdout (main e) ! 7 = [Lit ''Maximum relative error: '', General (max_error L)] \<and>
        stdout (main e) ! 8 = [Lit ''Standard deviation error: '', General (std r)] \<and>
        stdout (main e) ! 17 =
          [Lit ''Median relative error: '', Fixed 6 (fmul (median r) 100), Lit ''%''] \<and>
        stdout (main e) ! 18 =
          [Lit ''25th percentile error: '', Fixed 6 (fmul (quantile r 0.25) 100), Lit ''%''] \<and>
        stdout (main e) ! 19 =
          [Lit ''75th percentile error: '', Fixed 6 (fmul (quantile r 0.75) 100), Lit ''%''])"
proof -
  from main_complete_stdout [OF assms] obtain L s r where
    L: "load e = Inr L" "relative_error (speedup_data L) = Some r"
    and out: "stdout (main e) =
     [[Lit ''Statistics from '', IntD (num_runs L), Lit '' runs:''],
      [Lit ''Average speedup: '', Fixed 4 (avg_speedup L), Lit ''x''],
      [Lit ''Minimum speedup: '', Fixed 4 (min_speedup L), Lit ''x''],
      [Lit ''Maximum speedup: '', Fixed 4 (max_speedup L), Lit ''x''],
      [Lit ''Standard deviation speedup: '', Fixed 4 (std s)],
      [Lit ''Average relative error: '', General (avg_error L)],
      [Lit ''Minimum relative error: '', General (min_error L)],
      [Lit ''Maximum relative error: '', General (max_error L)],
      [Lit ''Standard deviation error: '', General (std r)],
      [Lit ''Plot saved as speedup_analysis.png''],
      [Lit (nl @ ''Additional Statistics:'')],
      [Lit ''Median speedup: '', Fixed 4 (median s), Lit ''x''],
      [Lit ''25th percentile speedup: '', Fixed 4 (quantile s 0.25), Lit ''x''],
      [Lit ''75th percentile speedup: '', Fixed 4 (quantile s 0.75), Lit ''x''],
      runs_line ''Runs with speedup > 1.0x: '' s 1.0 (num_runs L),
      runs_line ''Runs with speedup > 1.5x: '' s 1.5 (num_runs L),
      [Lit (nl @ ''Error Statistics:'')],
      [Lit ''Median relative error: '', Fixed 6 (fmul (median r) 100), Lit ''%''],
      [Lit ''25th percentile error: '', Fixed 6 (fmul (quantile r 0.25) 100), Lit ''%''],
      [Lit ''75th percentile error: '', Fixed 6 (fmul (quantile r 0.75) 100), Lit ''%'']]"
    by blast
  have 1: "map float_specs (stdout (main e)) =
       [[], [F 4], [F 4], [F 4], [F 4], [G], [G], [G], [G], [], [],
        [F 4], [F 4], [F 4], [F 1], [F 1], [], [F 6], [F 6], [F 6]]"
    by (simp add: out runs_line_def)
  have 2: "map pct_formatted (stdout (main e)) =
       [False, False, False, False, False, False, False, False, False, False, False,
        False, False, False, False, False, False, True, True, True]"
    by (simp add: out runs_line_def)
  show ?thesis
    using L by (simp add: 1 2) (simp add: out)
qed

theorem report_formats_witness:
  "exc (main sample_env) = None \<and>
   float_specs (stdout (main sample_env) ! 1) = [F 4] \<and>
   float_specs (stdout (main sample_env) ! 5) = [G] \<and>
   pct_formatted (stdout (main sample_env) ! 17) \<and>
   stdout (main sample_env) ! 17 = [Lit ''Median relative error: '', Fixed 6 (Num 3), Lit ''%'']"
proof -
  have m: "median (map Num [0.01, 0.03, 0.05]) = Num 0.03"
    by (simp add: median_def)
  note L = load_sample_env
  have n: "map f xs = ys \<Longrightarrow> i < length ys \<Longrightarrow> f (xs ! i) = ys ! i" for f :: "fstring \<Rightarrow> 'b" and xs ys i
    by auto
  from report_formats [OF sample_complete] have
    a: "map float_specs (stdout (main sample_env)) =
       [[], [F 4], [F 4], [F 4], [F 4], [G], [G], [G], [G], [], [],
        [F 4], [F 4], [F 4], [F 1], [F 1], [], [F 6], [F 6], [F 6]]"
    and b: "map pct_formatted (stdout (main sample_env)) =
       [False, False, False, False, False, False, False, False, False, False, False,
        False, False, False, False, False, False, True, True, True]"
    and c: "\<exists>L r. load sample_env = Inr L \<and> relative_error (speedup_data L) = Some r \<and>
        stdout (main sample_env) ! 17 =
          [Lit ''Median relative error: '', Fixed 6 (fmul (median r) 100), Lit ''%'']"
    by blast+
  have "float_specs (stdout (main sample_env) ! 1) = [F 4]"
    using n [OF a, of 1] by simp
  moreover have "float_specs (stdout (main sample_env) ! 5) = [G]"
    using n [OF a, of 5] by simp
  moreover have "pct_formatted (stdout (main sample_env) ! 17)"
    using n [OF b, of 17] by simp
  moreover have "stdout (main sample_env) ! 17 = [Lit ''Median relative error: '', Fixed 6 (Num 3), Lit ''%'']"
    using c L m by (auto simp: sample_runs_def)
  ultimately show ?thesis
    using sample_complete by blast
qed

text \<open>
  The claim as stated fails on the average error: it is printed in general format, as the
  fraction \<open>0.03\<close>, where a percentage would be a fixed-point field holding \<open>3\<close> and a
  percent sign.
\<close>

theorem error_general_format_counterexample:
  "stdout (main sample_env) ! 5 = [Lit ''Average relative error: '', General (Num 0.03)] \<and>
   \<not> pct_formatted (stdout (main sample_env) ! 5)"
proof -
  note L = load_sample_env
  have "png_writable sample_env"
    unfolding sample_env_def by (rule sample_writable)
  from main_success(1) [OF L _ _ _ this, of "map Num [1, 2, 3]" "map Num [1, 3, 5]"
      "map Num [0.01, 0.03, 0.05]"]
  have "stdout (main sample_env) ! 5 = [Lit ''Average relative error: '', General (Num 0.03)]"
    by (simp add: sample_runs_def)
  then show ?thesis by simp
qed

text \<open>
  C5. For a \<open>speedup\<close> column of \<open>N \<ge> 1\<close> rows and a threshold \<open>t\<close>, the printed line holds the
  count of rows above \<open>t\<close> and a percentage \<open>p\<close>, the mean of the indicator times 100, and
  \<open>count / N = p / 100\<close>.
\<close>

theorem count_and_percentage_consistent:
  assumes "1 \<le> length col"
  shows "\<exists>p. fmul (mean_gt col t) 100 = Num p \<and>
     runs_line label col t n =
       [Lit label, IntD (count_gt col t), Lit ''/'', IntD n, Lit '' ('', Fixed 1 (Num p), Lit ''%)''] \<and>
     real_of_int (count_gt col t) / real (length col) = p / 100"
proof -
  from assms have ne: "col \<noteq> []" by auto
  let ?p = "real_of_int (count_gt col t) / real (length col) * 100"
  have "fmul (mean_gt col t) 100 = Num ?p"
    using ne by (simp add: mean_gt_def)
  moreover from this have "runs_line label col t n =
       [Lit label, IntD (count_gt col t), Lit ''/'', IntD n, Lit '' ('', Fixed 1 (Num ?p), Lit ''%)'']"
    by (simp add: runs_line_def)
  moreover have "real_of_int (count_gt col t) / real (length col) = ?p / 100"
    by simp
  ultimately show ?thesis by blast
qed

theorem count_and_percentage_consistent_witness:
  "1 \<le> length [Num 0.5, Num 2, NaN, Num 3] \<and>
   count_gt [Num 0.5, Num 2, NaN, Num 3] 1.0 = 2 \<and>
   (\<exists>p. fmul (mean_gt [Num 0.5, Num 2, NaN, Num 3] 1.0) 100 = Num p \<and>
     runs_line ''Runs with speedup > 1.0x: '' [Num 0.5, Num 2, NaN, Num 3] 1.0 4 =
       [Lit ''Runs with speedup > 1.0x: '', IntD 2, Lit ''/'', IntD 4, Lit '' ('',
        Fixed 1 (Num p), Lit ''%)''] \<and>
     2 / 4 = p / 100)"
proof -
  have c: "count_gt [Num 0.5, Num 2, NaN, Num 3] 1.0 = 2"
    by (simp add: count_gt_def)
  show ?thesis
    using count_and_percentage_consistent
      [of "[Num 0.5, Num 2, NaN, Num 3]" "1.0" "''Runs with speedup > 1.0x: ''" 4] c
    by simp
qed




text \<open>
  C7. On a column of exactly one row the standard deviation is NaN, whatever the value:
  nothing is raised, and the two lines that print a standard deviation are printed with
  NaN in them.
\<close>

theorem std_single_row:
  "std [x] = NaN \<and>
   print_all (summary_block
     (L\<lparr>speedup_data := \<lparr>run = rn, speedup = Some [x], relative_error = Some [y]\<rparr>\<rparr>)) =
     ([[Lit ''Statistics from '', IntD (num_runs L), Lit '' runs:''],
       [Lit ''Average speedup: '', Fixed 4 (avg_speedup L), Lit ''x''],
       [Lit ''Minimum speedup: '', Fixed 4 (min_speedup L), Lit ''x''],
       [Lit ''Maximum speedup: '', Fixed 4 (max_speedup L), Lit ''x''],
       [Lit ''Standard deviation speedup: '', Fixed 4 NaN],
       [Lit ''Average relative error: '', General (avg_error L)],
       [Lit ''Minimum relative error: '', General (min_error L)],
       [Lit ''Maximum relative error: '', General (max_error L)],
       [Lit ''Standard deviation error: '', General NaN]], None) \<and>
   format_f 4 NaN = ''nan''"
proof -
  have s: "std [v] = NaN" for v
    by (cases v) (simp_all add: std_def)
  then show ?thesis
    by (simp add: summary_block_def)
qed

text \<open>
  C8 (as amended). A file that is missing, unreadable or unparsable, and a stats table
  without its \<open>metric\<close> or \<open>value\<close> column, make the loading fail with the exception of
  the library, and a failed loading ends the run with nothing printed, no image and exit
  status 1. A Run Record table without one of its columns also ends the run with a
  \<open>KeyError\<close>, no image and exit status 1, but at the first use of the column: after 4
  printed lines for \<open>speedup\<close>, 8 for \<open>relative_error\<close>, 9 for \<open>run\<close>.
\<close>

theorem load_failures_abort:
  "(load e = Inl x \<longrightarrow>
      main e = \<lparr>stdout = [], image = None, exc = Some x\<rparr> \<and> exit_status (main e) = 1) \<and>
   (read_csv (speedup_results_csv e) = Inl x \<longrightarrow> load e = Inl x) \<and>
   (speedup_results_csv e = Parsed sd \<and> read_csv (speedup_stats_csv e) = Inl x \<longrightarrow>
      load e = Inl x) \<and>
   (speedup_results_csv e = Parsed sd \<and> speedup_stats_csv e = Parsed st \<and> metric st = None \<longrightarrow>
      load e = Inl (KeyError ''metric'')) \<and>
   (speedup_results_csv e = Parsed sd \<and> speedup_stats_csv e = Parsed st \<and> metric st = Some ms \<and>
    value_col st = None \<longrightarrow>
      load e = Inl (KeyError ''value'')) \<and>
   (load e = Inr L \<and> speedup (speedup_data L) = None \<longrightarrow>
      length (stdout (main e)) = 4 \<and> image (main e) = None \<and>
      exc (main e) = Some (KeyError ''speedup'') \<and> exit_status (main e) = 1) \<and>
   (load e = Inr L \<and> speedup (speedup_data L) = Some s \<and>
    relative_error (speedup_data L) = None \<longrightarrow>
      length (stdout (main e)) = 8 \<and> image (main e) = None \<and>
      exc (main e) = Some (KeyError ''relative_error'') \<and> exit_status (main e) = 1) \<and>
   (load e = Inr L \<and> speedup (speedup_data L) = Some s \<and>
    relative_error (speedup_data L) = Some r \<and> run (speedup_data L) = None \<longrightarrow>
      length (stdout (main e)) = 9 \<and> image (main e) = None \<and>
      exc (main e) = Some (KeyError ''run'') \<and> exit_status (main e) = 1)"
proof (intro conjI impI; (elim conjE)?)
  assume "load e = Inl x"
  then show "main e = \<lparr>stdout = [], image = None, exc = Some x\<rparr>"
    by (rule main_load_fails)
  then show "exit_status (main e) = 1"
    by (simp add: exit_status_def)
next
  assume "read_csv (speedup_results_csv e) = Inl x"
  then show "load e = Inl x"
    by (simp add: load_def)
next
  assume "speedup_results_csv e = Parsed sd" "read_csv (speedup_stats_csv e) = Inl x"
  then show "load e = Inl x"
    by (simp add: load_def)
next
  assume "speedup_results_csv e = Parsed sd" "speedup_stats_csv e = Parsed st" "metric st = None"
  then show "load e = Inl (KeyError ''metric'')"
    by (simp add: load_def)
next
  assume "speedup_results_csv e = Parsed sd" "speedup_stats_csv e = Parsed st"
    "metric st = Some ms" "value_col st = None"
  then show "load e = Inl (KeyError ''value'')"
    by (simp add: load_def)
next
  assume a: "load e = Inr L" "speedup (speedup_data L) = None"
  show "length (stdout (main e)) = 4" "image (main e) = None"
    "exc (main e) = Some (KeyError ''speedup'')" "exit_status (main e) = 1"
    by (simp_all add: main_no_speedup [OF a] exit_status_def)
next
  assume a: "load e = Inr L" "speedup (speedup_data L) = Some s"
    "relative_error (speedup_data L) = None"
  show "length (stdout (main e)) = 8" "image (main e) = None"
    "exc (main e) = Some (KeyError ''relative_error'')" "exit_status (main e) = 1"
    by (simp_all add: main_no_relative_error [OF a] exit_status_def)
next
  assume a: "load e = Inr L" "speedup (speedup_data L) = Some s"
    "relative_error (speedup_data L) = Some r" "run (speedup_data L) = None"
  show "length (stdout (main e)) = 9" "image (main e) = None"
    "exc (main e) = Some (KeyError ''run'')" "exit_status (main e) = 1"
    by (simp_all add: main_no_run [OF a] exit_status_def)
qed

theorem load_failures_abort_witness:
  "main \<lparr>speedup_results_csv = Missing,
         speedup_stats_csv = Parsed (stats_rows (sample_stats (Num 3))),
         png_writable = True\<rparr> =
     \<lparr>stdout = [], image = None, exc = Some FileNotFoundError\<rparr> \<and>
   main \<lparr>speedup_results_csv = Parsed sample_runs, speedup_stats_csv = Unreadable,
         png_writable = True\<rparr> =
     \<lparr>stdout = [], image = None, exc = Some PermissionError\<rparr> \<and>
   main \<lparr>speedup_results_csv = Parsed sample_runs,
         speedup_stats_csv = Parsed \<lparr>metric = None, value_col = Some [Num 3]\<rparr>,
         png_writable = True\<rparr> =
     \<lparr>stdout = [], image = None, exc = Some (KeyError ''metric'')\<rparr> \<and>
   main \<lparr>speedup_results_csv = Parsed sample_runs,
         speedup_stats_csv = Parsed \<lparr>metric = Some [''avg_speedup''], value_col = None\<rparr>,
         png_writable = True\<rparr> =
     \<lparr>stdout = [], image = None, exc = Some (KeyError ''value'')\<rparr> \<and>
   length (stdout (main (env_of (sample_runs\<lparr>speedup := None\<rparr>) (sample_stats (Num 3))))) = 4 \<and>
   exit_status (main (env_of (sample_runs\<lparr>speedup := None\<rparr>) (sample_stats (Num 3)))) = 1 \<and>
   length (stdout (main (env_of (sample_runs\<lparr>relative_error := None\<rparr>) (sample_stats (Num 3))))) = 8 \<and>
   exit_status (main (env_of (sample_runs\<lparr>relative_error := None\<rparr>) (sample_stats (Num 3)))) = 1 \<and>
   length (stdout (main (env_of (sample_runs\<lparr>run := None\<rparr>) (sample_stats (Num 3))))) = 9 \<and>
   exit_status (main (env_of (sample_runs\<lparr>run := None\<rparr>) (sample_stats (Num 3)))) = 1"
proof -
  let ?e1 = "\<lparr>speedup_results_csv = Missing,
         speedup_stats_csv = Parsed (stats_rows (sample_stats (Num 3))), png_writable = True\<rparr>"
  let ?e2 = "\<lparr>speedup_results_csv = Parsed sample_runs, speedup_stats_csv = Unreadable,
         png_writable = True\<rparr>"
  let ?st3 = "\<lparr>metric = None, value_col = Some [Num 3]\<rparr>"
  let ?e3 = "\<lparr>speedup_results_csv = Parsed sample_runs, speedup_stats_csv = Parsed ?st3,
         png_writable = True\<rparr>"
  let ?st4 = "\<lparr>metric = Some [''avg_speedup''], value_col = None\<rparr>"
  let ?e4 = "\<lparr>speedup_results_csv = Parsed sample_runs, speedup_stats_csv = Parsed ?st4,
         png_writable = True\<rparr>"
  let ?L = "\<lambda>fr. \<lparr>speedup_data = fr, avg_speedup = Num 3, min_speedup = Num 1,
            max_speedup = Num 5, avg_error = Num 0.03, min_error = Num 0.01,
            max_error = Num 0.05, num_runs = 3\<rparr>"
  have L: "load (env_of fr (sample_stats (Num 3))) = Inr (?L fr)" for fr
    by (rule load_sample_three)
  have 1: "main ?e1 = \<lparr>stdout = [], image = None, exc = Some FileNotFoundError\<rparr>"
    using load_failures_abort [of ?e1 FileNotFoundError] by simp
  have 2: "main ?e2 = \<lparr>stdout = [], image = None, exc = Some PermissionError\<rparr>"
    using load_failures_abort [of ?e2 PermissionError sample_runs] by simp
  have 3: "main ?e3 = \<lparr>stdout = [], image = None, exc = Some (KeyError ''metric'')\<rparr>"
    using load_failures_abort [of ?e3 "KeyError ''metric''" sample_runs ?st3] by simp
  have 4: "main ?e4 = \<lparr>stdout = [], image = None, exc = Some (KeyError ''value'')\<rparr>"
    using load_failures_abort [of ?e4 "KeyError ''value''" sample_runs ?st4 "[''avg_speedup'']"] by simp
  have 5: "length (stdout (main (env_of (sample_runs\<lparr>speedup := None\<rparr>) (sample_stats (Num 3))))) = 4"
    "exit_status (main (env_of (sample_runs\<lparr>speedup := None\<rparr>) (sample_stats (Num 3)))) = 1"
    using load_failures_abort [of "env_of (sample_runs\<lparr>speedup := None\<rparr>) (sample_stats (Num 3))"
        _ _ _ _ "?L (sample_runs\<lparr>speedup := None\<rparr>)"] L
    by simp_all
  have 6: "length (stdout (main (env_of (sample_runs\<lparr>relative_error := None\<rparr>) (sample_stats (Num 3))))) = 8"
    "exit_status (main (env_of (sample_runs\<lparr>relative_error := None\<rparr>) (sample_stats (Num 3)))) = 1"
    using load_failures_abort [of "env_of (sample_runs\<lparr>relative_error := None\<rparr>) (sample_stats (Num 3))"
        _ _ _ _ "?L (sample_runs\<lparr>relative_error := None\<rparr>)" "map Num [1, 3, 5]"] L
    by (simp_all add: sample_runs_def)
  have 7: "length (stdout (main (env_of (sample_runs\<lparr>run := None\<rparr>) (sample_stats (Num 3))))) = 9"
    "exit_status (main (env_of (sample_runs\<lparr>run := None\<rparr>) (sample_stats (Num 3)))) = 1"
    using load_failures_abort [of "env_of (sample_runs\<lparr>run := None\<rparr>) (sample_stats (Num 3))"
        _ _ _ _ "?L (sample_runs\<lparr>run := None\<rparr>)" "map Num [1, 3, 5]" "map Num [0.01, 0.03, 0.05]"] L
    by (simp_all add: sample_runs_def)
  show ?thesis
    using 1 2 3 4 5 6 7 by blast
qed

text \<open>
  The claim as stated fails when the Run Record table has no \<open>speedup\<close> column: the run
  count and the average, minimum and maximum speedup are printed before the exception.
\<close>

theorem partial_report_counterexample:
  "stdout (main (env_of \<lparr>run = Some (map Num [1, 2, 3]), speedup = None,
                           relative_error = Some (map Num [0.01, 0.03, 0.05])\<rparr>
                        (sample_stats (Num 3)))) =
     [[Lit ''Statistics from '', IntD 3, Lit '' runs:''],
      [Lit ''Average speedup: '', Fixed 4 (Num 3), Lit ''x''],
      [Lit ''Minimum speedup: '', Fixed 4 (Num 1), Lit ''x''],
      [Lit ''Maximum speedup: '', Fixed 4 (Num 5), Lit ''x'']] \<and>
   exc (main (env_of \<lparr>run = Some (map Num [1, 2, 3]), speedup = None,
                        relative_error = Some (map Num [0.01, 0.03, 0.05])\<rparr>
                     (sample_stats (Num 3)))) = Some (KeyError ''speedup'')"
proof -
  let ?fr = "\<lparr>run = Some (map Num [1, 2, 3]), speedup = None,
              relative_error = Some (map Num [0.01, 0.03, 0.05])\<rparr>"
  have "load (env_of ?fr (sample_stats (Num 3))) =
      Inr \<lparr>speedup_data = ?fr, avg_speedup = Num 3, min_speedup = Num 1,
            max_speedup = Num 5, avg_error = Num 0.03, min_error = Num 0.01,
            max_error = Num 0.05, num_runs = 3\<rparr>"
    by (rule load_sample_three)
  from main_no_speedup [OF this] show ?thesis
    by simp
qed





end
